theory Spec2Isabelle
  imports Complex_Main
begin

section \<open>The JavaScript values the form schema works on\<close>

text \<open>
  The repository is one React component (two revisions of \<^verbatim>\<open>App.tsx\<close>) whose
  logic is the schema \<^verbatim>\<open>createUserFormSchema\<close>, built from the combinators of the
  validation library, and the helper \<^verbatim>\<open>addNewTech\<close>. The schema is embedded
  combinator by combinator; the callbacks it passes to them (the refinements and the
  transforms) are translated from the source text.

  A string is a list of code units; \<^typ>\<open>char\<close> has the code units below 256, which
  covers every literal of the source. An exception of the runtime is a value
  of \<^typ>\<open>'e + 'a\<close>: \<open>Inl\<close> carries the error thrown.
\<close>

datatype js_error = TypeError

text \<open>
  A number is \<open>NaN\<close>, an infinity, or a finite value given by the rational it denotes.
  The rounding of a decimal literal to the nearest double is not part of the model:
  it matters only for literals within rounding distance of a bound.
\<close>

datatype js_number = NaN | NegInf | Num rat | PosInf

text \<open>The relational operator \<^verbatim>\<open><\<close> on numbers; any comparison with \<open>NaN\<close> is false.\<close>

fun js_lt :: "js_number \<Rightarrow> js_number \<Rightarrow> bool" where
  "js_lt NaN y = False"
| "js_lt x NaN = False"
| "js_lt (Num a) (Num b) = (a < b)"
| "js_lt PosInf y = False"
| "js_lt x NegInf = False"
| "js_lt NegInf y = True"
| "js_lt x PosInf = True"

text \<open>\<^verbatim>\<open>a > b\<close> is \<^verbatim>\<open>b < a\<close>.\<close>

definition js_gt :: "js_number \<Rightarrow> js_number \<Rightarrow> bool" where
  "js_gt x y = js_lt y x"

text \<open>\<^verbatim>\<open>a <= b\<close>: false when an operand is \<open>NaN\<close>, otherwise the negation of \<^verbatim>\<open>b < a\<close>.\<close>

definition js_le :: "js_number \<Rightarrow> js_number \<Rightarrow> bool" where
  "js_le x y = (x \<noteq> NaN \<and> y \<noteq> NaN \<and> \<not> js_lt y x)"

text \<open>\<^verbatim>\<open>Number.isInteger\<close>.\<close>

fun isInteger :: "js_number \<Rightarrow> bool" where
  "isInteger (Num q) = (of_int (floor q) = q)"
| "isInteger x = False"

text \<open>The primitive values a form control or a default value can hold.\<close>

datatype js_value =
  JSUndefined | JSNull | JSBoolean bool | JSNumber js_number | JSString string

subsection \<open>Strings\<close>

text \<open>White space and line terminators among the code units below 256.\<close>

definition isWhiteSpace :: "char \<Rightarrow> bool" where
  "isWhiteSpace c =
     (c \<in> set [CHR 0x09, CHR 0x0A, CHR 0x0B, CHR 0x0C, CHR 0x0D, CHR 0x20, CHR 0xA0])"

text \<open>\<^verbatim>\<open>String.prototype.trim\<close>.\<close>

definition trim :: "string \<Rightarrow> string" where
  "trim s = rev (dropWhile isWhiteSpace (rev (dropWhile isWhiteSpace s)))"

text \<open>
  \<^verbatim>\<open>s.split(sep)\<close> for a separator of one code unit: the pieces between the
  occurrences of the separator, empty pieces included; the empty string gives one
  empty piece.
\<close>

fun split :: "char \<Rightarrow> string \<Rightarrow> string list" where
  "split sep [] = [[]]"
| "split sep (c # cs) =
     (if c = sep then [] # split sep cs
      else (c # hd (split sep cs)) # tl (split sep cs))"

text \<open>\<^verbatim>\<open>words.join(sep)\<close>.\<close>

fun join :: "string \<Rightarrow> string list \<Rightarrow> string" where
  "join sep [] = []"
| "join sep [w] = w"
| "join sep (w # v # ws) = w @ sep @ join sep (v # ws)"

text \<open>\<^verbatim>\<open>s.endsWith(suffix)\<close>.\<close>

definition endsWith :: "string \<Rightarrow> string \<Rightarrow> bool" where
  "endsWith s suffix =
     (length suffix \<le> length s \<and> drop (length s - length suffix) s = suffix)"

text \<open>
  \<^verbatim>\<open>String.prototype.toLowerCase\<close> on code units below 256: the letters A to Z and
  the accented capitals 0xC0 to 0xDE (the multiplication sign 0xD7 apart) move up by 32.
\<close>

definition toLowerCase_unit :: "char \<Rightarrow> char" where
  "toLowerCase_unit c =
     (let n = (of_char c :: nat)
      in if (65 \<le> n \<and> n \<le> 90) \<or> (192 \<le> n \<and> n \<le> 222 \<and> n \<noteq> 215)
         then char_of (n + 32) else c)"

definition toLowerCase :: "string \<Rightarrow> string" where
  "toLowerCase s = map toLowerCase_unit s"

subsection \<open>Conversion to a number\<close>

text \<open>
  \<^verbatim>\<open>Number(v)\<close> on a string reads a \<^verbatim>\<open>StringNumericLiteral\<close>: white space is
  trimmed, the empty string is 0, then a signed decimal literal (with fraction and
  exponent), \<^verbatim>\<open>Infinity\<close>, or an unsigned binary, octal or hexadecimal integer;
  anything else is \<open>NaN\<close>.
\<close>

definition digit_table :: "(char \<times> nat) list" where
  "digit_table = zip ''0123456789abcdefABCDEF'' ([0..<16] @ [10..<16])"

definition digit_val :: "nat \<Rightarrow> char \<Rightarrow> nat option" where
  "digit_val base c =
     (case map_of digit_table c of
        None \<Rightarrow> None
      | Some d \<Rightarrow> if d < base then Some d else None)"

fun digits_acc :: "nat \<Rightarrow> nat \<Rightarrow> string \<Rightarrow> nat option" where
  "digits_acc base acc [] = Some acc"
| "digits_acc base acc (c # cs) =
     (case digit_val base c of
        None \<Rightarrow> None
      | Some d \<Rightarrow> digits_acc base (acc * base + d) cs)"

text \<open>A possibly empty run of digits; the empty run has value 0.\<close>

definition digits :: "nat \<Rightarrow> string \<Rightarrow> nat option" where
  "digits base s = digits_acc base 0 s"

definition ExponentPart :: "string \<Rightarrow> int option" where
  "ExponentPart r =
     (case r of
        [] \<Rightarrow> Some 0
      | e # t \<Rightarrow>
          (let neg = (take 1 t = ''-'');
               d = (if take 1 t = ''-'' \<or> take 1 t = ''+'' then drop 1 t else t)
           in if d = [] then None
              else (case digits 10 d of
                      None \<Rightarrow> None
                    | Some n \<Rightarrow> Some (if neg then - int n else int n))))"

definition isExponentIndicator :: "char \<Rightarrow> bool" where
  "isExponentIndicator c = (c = CHR ''e'' \<or> c = CHR ''E'')"

definition StrUnsignedDecimalLiteral :: "string \<Rightarrow> js_number option" where
  "StrUnsignedDecimalLiteral s =
     (if s = ''Infinity'' then Some PosInf
      else
        (let m = takeWhile (\<lambda>c. \<not> isExponentIndicator c) s;
             r = dropWhile (\<lambda>c. \<not> isExponentIndicator c) s;
             ip = takeWhile (\<lambda>c. c \<noteq> CHR ''.'') m;
             fp = drop 1 (dropWhile (\<lambda>c. c \<noteq> CHR ''.'') m)
         in if ip = [] \<and> fp = [] then None
            else
              (case (digits 10 ip, digits 10 fp, ExponentPart r) of
                 (Some i, Some f, Some e) \<Rightarrow>
                   (let q = (of_nat i + of_nat f / 10 ^ length fp :: rat)
                    in Some (Num (if 0 \<le> e then q * 10 ^ nat e else q / 10 ^ nat (- e))))
               | _ \<Rightarrow> None)))"

fun js_negate :: "js_number \<Rightarrow> js_number" where
  "js_negate NaN = NaN"
| "js_negate NegInf = PosInf"
| "js_negate (Num q) = Num (- q)"
| "js_negate PosInf = NegInf"

definition NonDecimalIntegerLiteral :: "string \<Rightarrow> js_number option" where
  "NonDecimalIntegerLiteral s =
     (let p = take 2 s; d = drop 2 s;
          base = (if p = ''0x'' \<or> p = ''0X'' then 16
                  else if p = ''0o'' \<or> p = ''0O'' then 8
                  else if p = ''0b'' \<or> p = ''0B'' then 2 else (0::nat))
      in if base = 0 \<or> d = [] then None
         else map_option (\<lambda>n. Num (of_nat n)) (digits base d))"

definition StringToNumber :: "string \<Rightarrow> js_number" where
  "StringToNumber s =
     (let t = trim s
      in if t = [] then Num 0
         else
           (case NonDecimalIntegerLiteral t of
              Some n \<Rightarrow> n
            | None \<Rightarrow>
                (case (if take 1 t = ''-''
                       then map_option js_negate (StrUnsignedDecimalLiteral (drop 1 t))
                       else if take 1 t = ''+'' then StrUnsignedDecimalLiteral (drop 1 t)
                       else StrUnsignedDecimalLiteral t) of
                   Some n \<Rightarrow> n
                 | None \<Rightarrow> NaN)))"

text \<open>\<^verbatim>\<open>Number(v)\<close> on a primitive value.\<close>

fun ToNumber :: "js_value \<Rightarrow> js_number" where
  "ToNumber JSUndefined = NaN"
| "ToNumber JSNull = Num 0"
| "ToNumber (JSBoolean b) = (if b then Num 1 else Num 0)"
| "ToNumber (JSNumber n) = n"
| "ToNumber (JSString s) = StringToNumber s"

section \<open>The schema combinators\<close>

text \<open>
  A schema parses an input found at a path of the form data. It returns one of
  three results and adds issues to the list the whole parse shares:
  \<^item> \<open>OK v\<close>: valid, with the output value;
  \<^item> \<open>DIRTY v\<close>: an issue was recorded, parsing went on, and \<open>v\<close> is the value so far;
  \<^item> \<open>INVALID\<close>: aborted, no value.
  A callback of the source can throw; then the whole parse throws (\<open>Inl\<close>).
\<close>

datatype issue_code = invalid_type | too_small | too_big | invalid_string | custom

datatype path_elem = Key string | Index nat

record issue =
  code :: issue_code
  path :: "path_elem list"
  message :: string

datatype ('d, 'v) parse_return = INVALID | DIRTY 'd | OK 'v

type_synonym ('d, 'v) parsed = "js_error + (('d, 'v) parse_return \<times> issue list)"

type_synonym ('i, 'd, 'v) schema = "path_elem list \<Rightarrow> 'i \<Rightarrow> ('d, 'v) parsed"

definition addIssue :: "issue_code \<Rightarrow> path_elem list \<Rightarrow> string \<Rightarrow> issue list \<Rightarrow> issue list" where
  "addIssue c p m iss = iss @ [\<lparr>code = c, path = p, message = m\<rparr>]"

text \<open>
  \<^verbatim>\<open>schema.refine(check, message)\<close>. An aborted inner result stays aborted and the
  check does not run. Otherwise the check runs on the inner value, also when an
  earlier check has already failed (a failed refinement marks the result dirty, it
  does not abort); a false result adds a \<open>custom\<close> issue with the message.
\<close>

definition refine ::
  "('i, 'a, 'a) schema \<Rightarrow> ('a \<Rightarrow> js_error + bool) \<Rightarrow> string \<Rightarrow> ('i, 'a, 'a) schema" where
  "refine inner check msg p x =
     (case inner p x of
        Inl e \<Rightarrow> Inl e
      | Inr (INVALID, iss) \<Rightarrow> Inr (INVALID, iss)
      | Inr (DIRTY v, iss) \<Rightarrow>
          (case check v of
             Inl e \<Rightarrow> Inl e
           | Inr holds \<Rightarrow> Inr (DIRTY v, if holds then iss else addIssue custom p msg iss))
      | Inr (OK v, iss) \<Rightarrow>
          (case check v of
             Inl e \<Rightarrow> Inl e
           | Inr holds \<Rightarrow>
               if holds then Inr (OK v, iss) else Inr (DIRTY v, addIssue custom p msg iss)))"

text \<open>
  \<^verbatim>\<open>schema.transform(f)\<close>: \<open>f\<close> runs only on a valid inner result; a dirty or
  aborted one is handed on as it is.
\<close>

definition transform ::
  "('i, 'a, 'a) schema \<Rightarrow> ('a \<Rightarrow> js_error + 'b) \<Rightarrow> ('i, 'a, 'b) schema" where
  "transform inner f p x =
     (case inner p x of
        Inl e \<Rightarrow> Inl e
      | Inr (INVALID, iss) \<Rightarrow> Inr (INVALID, iss)
      | Inr (DIRTY v, iss) \<Rightarrow> Inr (DIRTY v, iss)
      | Inr (OK v, iss) \<Rightarrow>
          (case f v of
             Inl e \<Rightarrow> Inl e
           | Inr w \<Rightarrow> Inr (OK w, iss)))"

subsection \<open>Strings\<close>

text \<open>
  The two functions of the environment the schema depends on: the library's test of
  the syntax of an email address, and \<^verbatim>\<open>toLocaleUpperCase\<close>, which follows the
  locale of the host.
\<close>

record host =
  emailRegex_test :: "string \<Rightarrow> bool"
  toLocaleUpperCase :: "string \<Rightarrow> string"

datatype string_check = min_length nat string | email_format string | to_lower_case

text \<open>
  \<^verbatim>\<open>z.string()\<close> with its checks, on an input that is a string. The checks run in
  the order they were chained, each on the data as the earlier ones left it; a
  failed check records its issue and the next check still runs.
\<close>

fun string_checks ::
  "host \<Rightarrow> path_elem list \<Rightarrow> string_check list \<Rightarrow> bool \<times> string \<times> issue list
     \<Rightarrow> bool \<times> string \<times> issue list" where
  "string_checks h p [] st = st"
| "string_checks h p (min_length n msg # cs) (dirty, s, iss) =
     string_checks h p cs
       (if length s < n then (True, s, addIssue too_small p msg iss) else (dirty, s, iss))"
| "string_checks h p (email_format msg # cs) (dirty, s, iss) =
     string_checks h p cs
       (if \<not> emailRegex_test h s then (True, s, addIssue invalid_string p msg iss)
        else (dirty, s, iss))"
| "string_checks h p (to_lower_case # cs) (dirty, s, iss) =
     string_checks h p cs (dirty, toLowerCase s, iss)"

definition z_string :: "host \<Rightarrow> string_check list \<Rightarrow> (string, string, string) schema" where
  "z_string h checks p s =
     (case string_checks h p checks (False, s, []) of
        (dirty, s', iss) \<Rightarrow> Inr (if dirty then DIRTY s' else OK s', iss))"

subsection \<open>Numbers\<close>

datatype number_check = min_value rat | max_value rat

definition show_rat :: "rat \<Rightarrow> string" where
  "show_rat q = (if q = 1 then ''1'' else if q = 100 then ''100'' else ''?'')"

text \<open>
  The checks of \<^verbatim>\<open>z.number()\<close>, with the messages of the library's default error
  map (the source gives none). Only the bounds 1 and 100 are printed by it here.
\<close>

fun number_checks ::
  "path_elem list \<Rightarrow> number_check list \<Rightarrow> bool \<times> issue list \<Rightarrow> js_number
     \<Rightarrow> bool \<times> issue list" where
  "number_checks p [] st n = st"
| "number_checks p (min_value b # cs) (dirty, iss) n =
     number_checks p cs
       (if js_lt n (Num b)
        then (True, addIssue too_small p
                (''Number must be greater than or equal to '' @ show_rat b) iss)
        else (dirty, iss)) n"
| "number_checks p (max_value b # cs) (dirty, iss) n =
     number_checks p cs
       (if js_gt n (Num b)
        then (True, addIssue too_big p
                (''Number must be less than or equal to '' @ show_rat b) iss)
        else (dirty, iss)) n"

text \<open>
  \<^verbatim>\<open>z.coerce.number()\<close> with its checks: the input is replaced by \<^verbatim>\<open>Number(input)\<close>;
  \<open>NaN\<close> is not of type number, which aborts with an \<open>invalid_type\<close> issue (its message
  names the received type \<^verbatim>\<open>nan\<close>: after the coercion the input is never
  \<^verbatim>\<open>undefined\<close>).
\<close>

definition z_coerce_number :: "number_check list \<Rightarrow> (js_value, js_number, js_number) schema" where
  "z_coerce_number checks p v =
     (let n = ToNumber v
      in if n = NaN
         then Inr (INVALID, addIssue invalid_type p ''Expected number, received nan'' [])
         else (case number_checks p checks (False, []) n of
                 (dirty, iss) \<Rightarrow> Inr (if dirty then DIRTY n else OK n, iss)))"

subsection \<open>Arrays\<close>

text \<open>
  \<^verbatim>\<open>z.array(element).min(n, message)\<close> on an input that is an array: the length is
  checked first, then every element is parsed at its index, in order; one aborted
  element aborts the array, a dirty one makes it dirty.
\<close>

fun array_elements ::
  "('i, 'a, 'a) schema \<Rightarrow> path_elem list \<Rightarrow> nat \<Rightarrow> 'i list
     \<Rightarrow> js_error + (('a, 'a) parse_return list \<times> issue list)" where
  "array_elements element p k [] = Inr ([], [])"
| "array_elements element p k (x # xs) =
     (case element (p @ [Index k]) x of
        Inl e \<Rightarrow> Inl e
      | Inr (r, iss) \<Rightarrow>
          (case array_elements element p (Suc k) xs of
             Inl e \<Rightarrow> Inl e
           | Inr (rs, iss') \<Rightarrow> Inr (r # rs, iss @ iss')))"

fun mergeArray :: "bool \<Rightarrow> ('a, 'a) parse_return list \<Rightarrow> ('a list, 'a list) parse_return" where
  "mergeArray dirty [] = (if dirty then DIRTY [] else OK [])"
| "mergeArray dirty (INVALID # rs) = INVALID"
| "mergeArray dirty (DIRTY v # rs) =
     (case mergeArray True rs of
        INVALID \<Rightarrow> INVALID
      | DIRTY vs \<Rightarrow> DIRTY (v # vs)
      | OK vs \<Rightarrow> DIRTY (v # vs))"
| "mergeArray dirty (OK v # rs) =
     (case mergeArray dirty rs of
        INVALID \<Rightarrow> INVALID
      | DIRTY vs \<Rightarrow> DIRTY (v # vs)
      | OK vs \<Rightarrow> OK (v # vs))"

definition z_array_min ::
  "('i, 'a, 'a) schema \<Rightarrow> nat \<Rightarrow> string \<Rightarrow> ('i list, 'a list, 'a list) schema" where
  "z_array_min element n msg p xs =
     (let short = (length xs < n);
          iss0 = (if short then addIssue too_small p msg [] else [])
      in case array_elements element p 0 xs of
           Inl e \<Rightarrow> Inl e
         | Inr (rs, iss) \<Rightarrow> Inr (mergeArray short rs, iss0 @ iss))"

subsection \<open>Running a schema\<close>

text \<open>
  \<^verbatim>\<open>safeParse\<close>: the output value when the result is valid, the issues otherwise
  (\<open>Inl\<close> of the inner sum). An exception of a callback is not caught by the library
  and neither by the form resolver, which hands on everything but a validation error.
\<close>

definition safeParse :: "('i, 'd, 'v) schema \<Rightarrow> 'i \<Rightarrow> js_error + (issue list + 'v)" where
  "safeParse schema x =
     (case schema [] x of
        Inl e \<Rightarrow> Inl e
      | Inr (OK v, iss) \<Rightarrow> Inr (Inr v)
      | Inr (DIRTY d, iss) \<Rightarrow> Inr (Inl iss)
      | Inr (INVALID, iss) \<Rightarrow> Inr (Inl iss))"

definition aborted :: "('d, 'v) parse_return \<Rightarrow> bool" where
  "aborted r = (case r of INVALID \<Rightarrow> True | DIRTY d \<Rightarrow> False | OK v \<Rightarrow> False)"

section \<open>The form schema of the source\<close>

definition MAX_FILE_SIZE :: nat where
  "MAX_FILE_SIZE = 5 * 1024 * 1024"

definition ACCEPTED_IMAGE_TYPES :: "string list" where
  "ACCEPTED_IMAGE_TYPES = [''image/jpeg'', ''image/jpg'', ''image/png'', ''image/webp'']"

text \<open>A \<^verbatim>\<open>File\<close> by the three properties the source reads, a \<^verbatim>\<open>FileList\<close> as a list.\<close>

record js_file =
  file_name :: string
  file_size :: nat
  file_type :: string

text \<open>\<^verbatim>\<open>files.item(i)\<close>: the file at the index, \<^verbatim>\<open>null\<close> (\<open>None\<close>) when there is none.\<close>

definition item :: "js_file list \<Rightarrow> nat \<Rightarrow> js_file option" where
  "item files i = (if i < length files then Some (files ! i) else None)"

text \<open>\<^verbatim>\<open>z.instanceof(FileList)\<close> on an input that is a \<^verbatim>\<open>FileList\<close>.\<close>

definition z_instanceof_FileList :: "(js_file list, js_file list, js_file list) schema" where
  "z_instanceof_FileList p files = Inr (OK files, [])"

text \<open>The messages of the source; the accented letters are code units above 127.\<close>

definition msg_avatar_required :: string where
  "msg_avatar_required = ''A imagem de perfil '' @ [CHR 0xE9] @ '' obrigat'' @ [CHR 0xF3] @ ''ria''"

definition msg_avatar_size :: string where
  "msg_avatar_size = ''Tamanho m'' @ [CHR 0xE1] @ ''ximo de 5MB''"

definition msg_avatar_type :: string where
  "msg_avatar_type = ''Formato de imagem inv'' @ [CHR 0xE1] @ ''lido''"

definition msg_name_required :: string where
  "msg_name_required = ''O nome '' @ [CHR 0xE9] @ '' obrigat'' @ [CHR 0xF3] @ ''rio''"

definition msg_email_required :: string where
  "msg_email_required = ''O email '' @ [CHR 0xE9] @ '' obrigat'' @ [CHR 0xF3] @ ''rio''"

definition msg_email_format :: string where
  "msg_email_format = ''Formato de email inv'' @ [CHR 0xE1] @ ''lido''"

definition msg_email_hotmail :: string where
  "msg_email_hotmail = ''O email precisa ser do hotmail''"

definition msg_password_min :: string where
  "msg_password_min = ''A senha precisa de no m'' @ [CHR 0xED] @ ''nimo 6 caracteres''"

definition msg_title_required :: string where
  "msg_title_required =
     ''O t'' @ [CHR 0xED] @ ''tulo '' @ [CHR 0xE9] @ '' obrigat'' @ [CHR 0xF3] @ ''rio''"

definition msg_techs_min :: string where
  "msg_techs_min = ''Insira pelo menos 2 tecnologias''"

definition msg_techs_learning :: string where
  "msg_techs_learning = ''Voc'' @ [CHR 0xEA] @ '' est'' @ [CHR 0xE1] @ '' aprendendo''"

subsection \<open>avatar\<close>

text \<open>
  The three refinements and the transform of the field \<^verbatim>\<open>avatar\<close>. The \<^verbatim>\<open>!\<close> after
  \<^verbatim>\<open>files.item(0)\<close> is erased at run time: on an empty list the expression is
  \<^verbatim>\<open>null\<close>, and reading \<^verbatim>\<open>.size\<close> or \<^verbatim>\<open>.type\<close> of it throws a \<^verbatim>\<open>TypeError\<close>; the
  transform only returns it.
\<close>

definition avatar_present :: "js_file list \<Rightarrow> js_error + bool" where
  "avatar_present files = Inr (item files 0 \<noteq> None)"

definition avatar_size_ok :: "js_file list \<Rightarrow> js_error + bool" where
  "avatar_size_ok files =
     (case item files 0 of
        None \<Rightarrow> Inl TypeError
      | Some f \<Rightarrow> Inr (file_size f \<le> MAX_FILE_SIZE))"

definition avatar_type_ok :: "js_file list \<Rightarrow> js_error + bool" where
  "avatar_type_ok files =
     (case item files 0 of
        None \<Rightarrow> Inl TypeError
      | Some f \<Rightarrow> Inr (file_type f \<in> set ACCEPTED_IMAGE_TYPES))"

definition avatar_first :: "js_file list \<Rightarrow> js_error + js_file option" where
  "avatar_first files = Inr (item files 0)"

definition avatar_schema :: "(js_file list, js_file list, js_file option) schema" where
  "avatar_schema =
     transform
       (refine
          (refine
             (refine z_instanceof_FileList avatar_present msg_avatar_required)
             avatar_size_ok msg_avatar_size)
          avatar_type_ok msg_avatar_type)
       avatar_first"

subsection \<open>name\<close>

text \<open>
  The callback of \<^verbatim>\<open>map\<close>: \<^verbatim>\<open>word[0]\<close> is \<^verbatim>\<open>undefined\<close> for the empty word, and
  calling \<^verbatim>\<open>toLocaleUpperCase\<close> on it throws a \<^verbatim>\<open>TypeError\<close>.
\<close>

definition capitalize :: "host \<Rightarrow> string \<Rightarrow> js_error + string" where
  "capitalize h word =
     (case word of
        [] \<Rightarrow> Inl TypeError
      | c # cs \<Rightarrow> Inr (toLocaleUpperCase h [c] @ drop 1 word))"

text \<open>\<^verbatim>\<open>xs.map(f)\<close> for a callback that can throw: the first exception ends the loop.\<close>

fun array_map :: "('a \<Rightarrow> js_error + 'b) \<Rightarrow> 'a list \<Rightarrow> js_error + 'b list" where
  "array_map f [] = Inr []"
| "array_map f (x # xs) =
     (case f x of
        Inl e \<Rightarrow> Inl e
      | Inr y \<Rightarrow> (case array_map f xs of Inl e \<Rightarrow> Inl e | Inr ys \<Rightarrow> Inr (y # ys)))"

definition name_transform :: "host \<Rightarrow> string \<Rightarrow> js_error + string" where
  "name_transform h name =
     (case array_map (capitalize h) (split CHR '' '' (trim name)) of
        Inl e \<Rightarrow> Inl e
      | Inr ws \<Rightarrow> Inr (join '' '' ws))"

definition name_schema :: "host \<Rightarrow> (string, string, string) schema" where
  "name_schema h = transform (z_string h [min_length 1 msg_name_required]) (name_transform h)"

subsection \<open>email and password\<close>

definition email_hotmail :: "string \<Rightarrow> js_error + bool" where
  "email_hotmail email = Inr (endsWith email ''@hotmail.com'')"

definition email_schema :: "host \<Rightarrow> (string, string, string) schema" where
  "email_schema h =
     refine
       (z_string h [min_length 1 msg_email_required, email_format msg_email_format, to_lower_case])
       email_hotmail msg_email_hotmail"

definition password_schema :: "host \<Rightarrow> (string, string, string) schema" where
  "password_schema h = z_string h [min_length 6 msg_password_min]"

subsection \<open>techs\<close>

record 'k tech =
  title :: string
  knowledge :: 'k

definition title_schema :: "host \<Rightarrow> (string, string, string) schema" where
  "title_schema h = z_string h [min_length 1 msg_title_required]"

definition knowledge_schema :: "(js_value, js_number, js_number) schema" where
  "knowledge_schema = z_coerce_number [min_value 1, max_value 100]"

text \<open>
  The object of one entry: both keys are parsed, in the order of the source; an
  aborted key aborts the object, a dirty one makes it dirty.
\<close>

fun merge_tech ::
  "(string, string) parse_return \<Rightarrow> (js_number, js_number) parse_return
     \<Rightarrow> (js_number tech, js_number tech) parse_return" where
  "merge_tech INVALID rk = INVALID"
| "merge_tech rt INVALID = INVALID"
| "merge_tech (OK t) (OK k) = OK \<lparr>title = t, knowledge = k\<rparr>"
| "merge_tech (OK t) (DIRTY k) = DIRTY \<lparr>title = t, knowledge = k\<rparr>"
| "merge_tech (DIRTY t) (OK k) = DIRTY \<lparr>title = t, knowledge = k\<rparr>"
| "merge_tech (DIRTY t) (DIRTY k) = DIRTY \<lparr>title = t, knowledge = k\<rparr>"

definition tech_schema :: "host \<Rightarrow> (js_value tech, js_number tech, js_number tech) schema" where
  "tech_schema h p t =
     (case title_schema h (p @ [Key ''title'']) (title t) of
        Inl e \<Rightarrow> Inl e
      | Inr (rt, iss_t) \<Rightarrow>
          (case knowledge_schema (p @ [Key ''knowledge'']) (knowledge t) of
             Inl e \<Rightarrow> Inl e
           | Inr (rk, iss_k) \<Rightarrow> Inr (merge_tech rt rk, iss_t @ iss_k)))"

text \<open>\<^verbatim>\<open>techs.some((tech) => tech.knowledge > 50)\<close>.\<close>

definition techs_some_above_50 :: "js_number tech list \<Rightarrow> js_error + bool" where
  "techs_some_above_50 techs = Inr (list_ex (\<lambda>tech. js_gt (knowledge tech) (Num 50)) techs)"

definition techs_schema ::
  "host \<Rightarrow> (js_value tech list, js_number tech list, js_number tech list) schema" where
  "techs_schema h =
     refine (z_array_min (tech_schema h) 2 msg_techs_min) techs_some_above_50 msg_techs_learning"

subsection \<open>The whole form\<close>

record ('a, 'k) form =
  avatar :: 'a
  name :: string
  email :: string
  password :: string
  techs :: "'k tech list"

text \<open>
  \<^verbatim>\<open>z.object\<close>: every key is parsed, in the order of the source, before the results
  are merged; the issues of all keys are kept. The value of a dirty object is
  never read, so it is left out.
\<close>

definition merge_form ::
  "('d1, 'a) parse_return \<Rightarrow> ('d2, string) parse_return \<Rightarrow> ('d3, string) parse_return
     \<Rightarrow> ('d4, string) parse_return \<Rightarrow> ('d5, 'k tech list) parse_return
     \<Rightarrow> (unit, ('a, 'k) form) parse_return" where
  "merge_form ra rn re rp rt =
     (case (ra, rn, re, rp, rt) of
        (OK a, OK n, OK e, OK pw, OK ts) \<Rightarrow>
          OK \<lparr>avatar = a, name = n, email = e, password = pw, techs = ts\<rparr>
      | _ \<Rightarrow>
          if aborted ra \<or> aborted rn \<or> aborted re \<or> aborted rp \<or> aborted rt
          then INVALID else DIRTY ())"

text \<open>The schema of \<^verbatim>\<open>src/unnamed/part_000\<close>, the revision with the avatar.\<close>

definition createUserFormSchema ::
  "host \<Rightarrow> ((js_file list, js_value) form, unit, (js_file option, js_number) form) schema" where
  "createUserFormSchema h p x =
     (case avatar_schema (p @ [Key ''avatar'']) (avatar x) of
        Inl e \<Rightarrow> Inl e
      | Inr (ra, iss_a) \<Rightarrow>
     (case name_schema h (p @ [Key ''name'']) (name x) of
        Inl e \<Rightarrow> Inl e
      | Inr (rn, iss_n) \<Rightarrow>
     (case email_schema h (p @ [Key ''email'']) (email x) of
        Inl e \<Rightarrow> Inl e
      | Inr (re, iss_e) \<Rightarrow>
     (case password_schema h (p @ [Key ''password'']) (password x) of
        Inl e \<Rightarrow> Inl e
      | Inr (rp, iss_p) \<Rightarrow>
     (case techs_schema h (p @ [Key ''techs'']) (techs x) of
        Inl e \<Rightarrow> Inl e
      | Inr (rt, iss_t) \<Rightarrow>
          Inr (merge_form ra rn re rp rt, iss_a @ iss_n @ iss_e @ iss_p @ iss_t))))))"

text \<open>
  The schema of \<^verbatim>\<open>src/src/App.tsx\<close>, the revision without the avatar: the other
  four keys are the same text.
\<close>

definition createUserFormSchema_App ::
  "host \<Rightarrow> (('a, js_value) form, unit, (unit, js_number) form) schema" where
  "createUserFormSchema_App h p x =
     (case name_schema h (p @ [Key ''name'']) (name x) of
        Inl e \<Rightarrow> Inl e
      | Inr (rn, iss_n) \<Rightarrow>
     (case email_schema h (p @ [Key ''email'']) (email x) of
        Inl e \<Rightarrow> Inl e
      | Inr (re, iss_e) \<Rightarrow>
     (case password_schema h (p @ [Key ''password'']) (password x) of
        Inl e \<Rightarrow> Inl e
      | Inr (rp, iss_p) \<Rightarrow>
     (case techs_schema h (p @ [Key ''techs'']) (techs x) of
        Inl e \<Rightarrow> Inl e
      | Inr (rt, iss_t) \<Rightarrow>
          Inr (merge_form (OK () :: (unit, unit) parse_return) rn re rp rt,
               iss_n @ iss_e @ iss_p @ iss_t)))))"

section \<open>The list of technologies\<close>

text \<open>
  Modelled from the spec: the field array of the form library, of which the source
  holds only the call in \<^verbatim>\<open>addNewTech\<close>. Section 4.2: append adds the entry at the
  end; remove deletes the entry at the position and keeps the order of the rest, with
  no lower bound on the length.
\<close>

definition append_field :: "'a list \<Rightarrow> 'a \<Rightarrow> 'a list" where
  "append_field xs x = xs @ [x]"

definition remove :: "'a list \<Rightarrow> nat \<Rightarrow> 'a list" where
  "remove xs i = take i xs @ drop (Suc i) xs"

text \<open>\<^verbatim>\<open>addNewTech\<close> of the source.\<close>

definition addNewTech :: "js_value tech list \<Rightarrow> js_value tech list" where
  "addNewTech entries = append_field entries \<lparr>title = [], knowledge = JSNumber (Num 0)\<rparr>"

section \<open>A host for the examples\<close>

text \<open>
  A host for evaluating the schema on concrete inputs: upper case for the letters a
  to z, and a plain test for an address (one \<^verbatim>\<open>@\<close>, a non-empty local part, a dot
  inside the domain, no white space).
\<close>

definition upper_ascii_unit :: "char \<Rightarrow> char" where
  "upper_ascii_unit c =
     (let n = (of_char c :: nat) in if 97 \<le> n \<and> n \<le> 122 then char_of (n - 32) else c)"

definition plain_email :: "string \<Rightarrow> bool" where
  "plain_email s =
     (let l = takeWhile (\<lambda>c. c \<noteq> CHR ''@'') s;
          d = drop 1 (dropWhile (\<lambda>c. c \<noteq> CHR ''@'') s)
      in l \<noteq> [] \<and> CHR ''@'' \<notin> set d \<and> \<not> list_ex isWhiteSpace s
         \<and> takeWhile (\<lambda>c. c \<noteq> CHR ''.'') d \<noteq> []
         \<and> drop 1 (dropWhile (\<lambda>c. c \<noteq> CHR ''.'') d) \<noteq> [])"

definition example_host :: host where
  "example_host = \<lparr>emailRegex_test = plain_email, toLocaleUpperCase = map upper_ascii_unit\<rparr>"

section \<open>The normalisation of the name as the specification words it\<close>

text \<open>
  Section 4.1 of the specification: trim, split on spaces, uppercase the first letter
  of each word, rejoin with single spaces. A word with no letter has no first letter
  to change. This definition follows those words, for comparison with
  \<^const>\<open>name_transform\<close>, which follows the source.
\<close>

definition capitalize_spec :: "host \<Rightarrow> string \<Rightarrow> string" where
  "capitalize_spec h word =
     (case word of [] \<Rightarrow> [] | c # cs \<Rightarrow> toLocaleUpperCase h [c] @ cs)"

definition normalize_name_spec :: "host \<Rightarrow> string \<Rightarrow> string" where
  "normalize_name_spec h nm =
     join '' '' (map (capitalize_spec h) (split CHR '' '' (trim nm)))"

section \<open>Auxiliary notions for the proofs\<close>

text \<open>An entry with its knowledge coerced, as the parsed array holds it.\<close>

definition coerced :: "js_value tech \<Rightarrow> js_number tech" where
  "coerced t = \<lparr>title = title t, knowledge = ToNumber (knowledge t)\<rparr>"

text \<open>
  What the schema of one entry returns: aborted when the knowledge is not a number,
  otherwise the coerced entry, valid or dirty.
\<close>

definition tech_result ::
  "(js_number tech, js_number tech) parse_return \<Rightarrow> js_value tech \<Rightarrow> bool" where
  "tech_result r t =
     (if ToNumber (knowledge t) = NaN then r = INVALID
      else r = DIRTY (coerced t) \<or> r = OK (coerced t))"

section \<open>Properties of the field schemas\<close>

subsection \<open>avatar\<close>

lemmas avatar_defs = avatar_schema_def transform_def refine_def z_instanceof_FileList_def
  avatar_present_def avatar_size_ok_def avatar_type_ok_def avatar_first_def item_def addIssue_def

lemma avatar_schema_nonempty:
  "avatar_schema p (f # fs) =
     Inr (if file_size f \<le> MAX_FILE_SIZE \<and> file_type f \<in> set ACCEPTED_IMAGE_TYPES
          then OK (Some f) else DIRTY (f # fs),
          (if file_size f \<le> MAX_FILE_SIZE then []
           else [\<lparr>code = custom, path = p, message = msg_avatar_size\<rparr>]) @
          (if file_type f \<in> set ACCEPTED_IMAGE_TYPES then []
           else [\<lparr>code = custom, path = p, message = msg_avatar_type\<rparr>]))"
  by (simp add: avatar_defs)

text \<open>
  On an empty list the first refinement records its issue, and the second one, which
  still runs, reads \<^verbatim>\<open>.size\<close> of \<^verbatim>\<open>null\<close>.
\<close>

lemma avatar_schema_empty: "avatar_schema p [] = Inl TypeError"
  by (simp add: avatar_defs)

lemma msg_avatar_distinct:
  "msg_avatar_size \<noteq> msg_avatar_type" "msg_avatar_type \<noteq> msg_avatar_size"
  by (simp_all add: msg_avatar_size_def msg_avatar_type_def)

text \<open>
  Claim C5. For a list whose first file is \<open>f\<close> the avatar schema returns normally;
  the size issue (\<^verbatim>\<open>Tamanho maximo de 5MB\<close>, with its accent) is reported exactly when
  the size exceeds \<open>5 * 1024 * 1024\<close> bytes, so a file of 6MB fails and one of exactly
  5MB passes; the type issue is reported exactly when the type is none of the four
  accepted ones, whatever the size, so \<^verbatim>\<open>image/gif\<close> fails; and the file is
  accepted exactly when no issue is reported.
\<close>

theorem avatar_schema_size_and_type:
  "\<exists>r iss. avatar_schema p (f # fs) = Inr (r, iss) \<and>
     (\<lparr>code = custom, path = p, message = msg_avatar_size\<rparr> \<in> set iss
        \<longleftrightarrow> 5 * 1024 * 1024 < file_size f) \<and>
     (\<lparr>code = custom, path = p, message = msg_avatar_type\<rparr> \<in> set iss
        \<longleftrightarrow> file_type f \<notin> set [''image/jpeg'', ''image/jpg'', ''image/png'', ''image/webp'']) \<and>
     (r = OK (Some f) \<longleftrightarrow> iss = [])"
  by (auto simp add: avatar_schema_nonempty msg_avatar_distinct MAX_FILE_SIZE_def
      ACCEPTED_IMAGE_TYPES_def)

theorem avatar_schema_size_and_type_witness:
  "avatar_schema [Key ''avatar'']
     [\<lparr>file_name = ''a.png'', file_size = 6 * 1024 * 1024, file_type = ''image/png''\<rparr>]
     = Inr (DIRTY [\<lparr>file_name = ''a.png'', file_size = 6 * 1024 * 1024,
                    file_type = ''image/png''\<rparr>],
            [\<lparr>code = custom, path = [Key ''avatar''], message = msg_avatar_size\<rparr>])
   \<and> avatar_schema [Key ''avatar'']
     [\<lparr>file_name = ''a.png'', file_size = 5 * 1024 * 1024, file_type = ''image/png''\<rparr>]
     = Inr (OK (Some \<lparr>file_name = ''a.png'', file_size = 5 * 1024 * 1024,
                      file_type = ''image/png''\<rparr>), [])
   \<and> avatar_schema [Key ''avatar'']
     [\<lparr>file_name = ''a.gif'', file_size = 10, file_type = ''image/gif''\<rparr>]
     = Inr (DIRTY [\<lparr>file_name = ''a.gif'', file_size = 10, file_type = ''image/gif''\<rparr>],
            [\<lparr>code = custom, path = [Key ''avatar''], message = msg_avatar_type\<rparr>])"
  using avatar_schema_size_and_type
    [of "[Key ''avatar'']"
        "\<lparr>file_name = ''a.png'', file_size = 6 * 1024 * 1024, file_type = ''image/png''\<rparr>" "[]"]
  by (simp add: avatar_schema_nonempty MAX_FILE_SIZE_def ACCEPTED_IMAGE_TYPES_def)

subsection \<open>name\<close>

lemma array_map_capitalize:
  "[] \<notin> set ws \<Longrightarrow> array_map (capitalize h) ws = Inr (map (capitalize_spec h) ws)"
  by (induction ws) (auto simp add: capitalize_def capitalize_spec_def split: list.splits)

lemma array_map_capitalize_throws:
  "[] \<in> set ws \<Longrightarrow> array_map (capitalize h) ws = Inl TypeError"
  by (induction ws) (auto simp add: capitalize_def split: list.splits sum.splits)

lemma name_schema_empty:
  "name_schema h p [] =
     Inr (DIRTY [], [\<lparr>code = too_small, path = p, message = msg_name_required\<rparr>])"
  by (simp add: name_schema_def transform_def z_string_def addIssue_def)

lemma name_schema_agrees:
  "nm \<noteq> [] \<Longrightarrow> [] \<notin> set (split CHR '' '' (trim nm)) \<Longrightarrow>
     name_schema h p nm = Inr (OK (normalize_name_spec h nm), [])"
  by (simp add: name_schema_def transform_def z_string_def name_transform_def
      normalize_name_spec_def array_map_capitalize)

lemma name_schema_throws:
  "nm \<noteq> [] \<Longrightarrow> [] \<in> set (split CHR '' '' (trim nm)) \<Longrightarrow>
     name_schema h p nm = Inl TypeError"
  by (simp add: name_schema_def transform_def z_string_def name_transform_def
      array_map_capitalize_throws)

lemma name_schema_cases:
  "name_schema h p nm =
     (if nm = []
      then Inr (DIRTY [], [\<lparr>code = too_small, path = p, message = msg_name_required\<rparr>])
      else if [] \<in> set (split CHR '' '' (trim nm)) then Inl TypeError
      else Inr (OK (normalize_name_spec h nm), []))"
  by (simp add: name_schema_empty name_schema_agrees name_schema_throws)

text \<open>
  Claim C2. The claim: for every non-empty name the normalised name is the name
  trimmed, split on spaces, each word with its first letter in upper case, rejoined
  with single spaces, also for names with extra internal white space. The source
  does so exactly when the trimmed name has no empty word. With two spaces in a
  row, or with nothing but white space, the split has an empty word, \<^verbatim>\<open>word[0]\<close>
  is \<^verbatim>\<open>undefined\<close>, and the transform throws a \<^verbatim>\<open>TypeError\<close> where the
  specification's words give a name.
\<close>

theorem name_schema_against_spec:
  assumes "nm \<noteq> []"
  shows "name_schema h p nm =
     (if [] \<in> set (split CHR '' '' (trim nm)) then Inl TypeError
      else Inr (OK (normalize_name_spec h nm), []))"
  using assms by (simp add: name_schema_cases)

theorem name_schema_against_spec_witness:
  "''ana  maria'' \<noteq> [] \<and> name_schema example_host [Key ''name''] ''ana  maria'' = Inl TypeError
   \<and> normalize_name_spec example_host ''ana  maria'' = ''Ana  Maria''
   \<and> '' ana maria DA silva '' \<noteq> []
   \<and> name_schema example_host [Key ''name''] '' ana maria DA silva ''
       = Inr (OK ''Ana Maria DA Silva'', [])"
proof -
  have w: "[] \<in> set (split CHR '' '' (trim ''ana  maria''))"
    "[] \<notin> set (split CHR '' '' (trim '' ana maria DA silva ''))"
    by (simp_all add: trim_def isWhiteSpace_def)
  have n: "normalize_name_spec example_host ''ana  maria'' = ''Ana  Maria''"
    "normalize_name_spec example_host '' ana maria DA silva '' = ''Ana Maria DA Silva''"
    by code_simp+
  show ?thesis
    using w n name_schema_against_spec [of "''ana  maria''" example_host "[Key ''name'']"]
      name_schema_against_spec [of "'' ana maria DA silva ''" example_host "[Key ''name'']"]
    by simp
qed

subsection \<open>email and password\<close>

lemma email_schema_total: "\<exists>r iss. email_schema h p e = Inr (r, iss)"
  by (simp add: email_schema_def refine_def z_string_def email_hotmail_def
      split: parse_return.splits prod.splits)

lemma email_schema_OK:
  "email_schema h p e = Inr (OK v, iss) \<Longrightarrow> v = toLowerCase e \<and> iss = []"
  by (auto simp add: email_schema_def refine_def z_string_def email_hotmail_def addIssue_def
      split: if_splits)

lemma password_schema_total: "\<exists>r iss. password_schema h p s = Inr (r, iss)"
  by (simp add: password_schema_def z_string_def split: prod.splits)

text \<open>
  Claim C3. For a non-empty email that passes the syntax test, the schema lower-cases
  it and then tests the lower-cased text for the suffix \<^verbatim>\<open>@hotmail.com\<close>: with the
  suffix the result is valid and its value is the lower-cased input; without it the
  only issue is the one with the message \<^verbatim>\<open>O email precisa ser do hotmail\<close>. The
  letter case of the input plays no part, since only the lower-cased text is tested.
\<close>

theorem email_schema_lowercase_hotmail:
  assumes "e \<noteq> []" and "emailRegex_test h e"
  shows "email_schema h p e =
     Inr (if endsWith (toLowerCase e) ''@hotmail.com'' then (OK (toLowerCase e), [])
          else (DIRTY (toLowerCase e),
                [\<lparr>code = custom, path = p, message = ''O email precisa ser do hotmail''\<rparr>]))"
  using assms
  by (simp add: email_schema_def refine_def z_string_def email_hotmail_def addIssue_def
      msg_email_hotmail_def)

theorem email_schema_lowercase_hotmail_witness:
  "''Ana@HOTMAIL.com'' \<noteq> [] \<and> emailRegex_test example_host ''Ana@HOTMAIL.com''
   \<and> email_schema example_host [Key ''email''] ''Ana@HOTMAIL.com''
       = Inr (OK ''ana@hotmail.com'', [])
   \<and> ''Ana@Gmail.COM'' \<noteq> [] \<and> emailRegex_test example_host ''Ana@Gmail.COM''
   \<and> email_schema example_host [Key ''email''] ''Ana@Gmail.COM''
       = Inr (DIRTY ''ana@gmail.com'',
              [\<lparr>code = custom, path = [Key ''email''],
                message = ''O email precisa ser do hotmail''\<rparr>])"
proof -
  have t: "plain_email ''Ana@HOTMAIL.com''" "plain_email ''Ana@Gmail.COM''"
    by code_simp+
  have r: "emailRegex_test example_host ''Ana@HOTMAIL.com''"
    "emailRegex_test example_host ''Ana@Gmail.COM''"
    using t by (simp_all add: example_host_def)
  have l: "toLowerCase ''Ana@HOTMAIL.com'' = ''ana@hotmail.com''"
    "toLowerCase ''Ana@Gmail.COM'' = ''ana@gmail.com''"
    by code_simp+
  show ?thesis
    using email_schema_lowercase_hotmail
        [of "''Ana@HOTMAIL.com''" example_host "[Key ''email'']", OF _ r(1)]
      email_schema_lowercase_hotmail
        [of "''Ana@Gmail.COM''" example_host "[Key ''email'']", OF _ r(2)] r
    by (simp add: l endsWith_def)
qed

subsection \<open>knowledge\<close>

lemma knowledge_schema_eq:
  "knowledge_schema p v =
     (case ToNumber v of
        NaN \<Rightarrow>
          Inr (INVALID, [\<lparr>code = invalid_type, path = p,
                          message = ''Expected number, received nan''\<rparr>])
      | NegInf \<Rightarrow>
          Inr (DIRTY NegInf, [\<lparr>code = too_small, path = p,
                               message = ''Number must be greater than or equal to 1''\<rparr>])
      | Num q \<Rightarrow>
          if q < 1
          then Inr (DIRTY (Num q), [\<lparr>code = too_small, path = p,
                                    message = ''Number must be greater than or equal to 1''\<rparr>])
          else if 100 < q
          then Inr (DIRTY (Num q), [\<lparr>code = too_big, path = p,
                                    message = ''Number must be less than or equal to 100''\<rparr>])
          else Inr (OK (Num q), [])
      | PosInf \<Rightarrow>
          Inr (DIRTY PosInf, [\<lparr>code = too_big, path = p,
                               message = ''Number must be less than or equal to 100''\<rparr>]))"
  by (simp add: knowledge_schema_def z_coerce_number_def addIssue_def js_gt_def show_rat_def
      split: js_number.splits)

text \<open>
  Claim C4, as amended. The knowledge is the number coerced from the raw input, and
  the schema accepts it exactly when that number is finite and lies between 1 and
  100 inclusive; \<open>NaN\<close>, the infinities and every number outside the range are
  rejected. The source has no test for an integer: a fraction inside the range
  is accepted.
\<close>

theorem knowledge_schema_accepts_iff_in_range:
  "knowledge_schema p v = Inr (OK n, iss) \<longleftrightarrow>
     (n = ToNumber v \<and> iss = [] \<and> (\<exists>q. n = Num q \<and> 1 \<le> q \<and> q \<le> 100))"
  by (auto simp add: knowledge_schema_eq split: js_number.splits if_splits)

theorem knowledge_schema_accepts_iff_in_range_witness:
  "knowledge_schema [Key ''knowledge''] (JSString ''50'') = Inr (OK (Num 50), [])
   \<and> ToNumber (JSString ''50'') = Num 50 \<and> (1::rat) \<le> 50 \<and> (50::rat) \<le> 100"
proof -
  have n: "StringToNumber ''50'' = Num 50" by code_simp
  show ?thesis
    using knowledge_schema_accepts_iff_in_range
      [of "[Key ''knowledge'']" "JSString ''50''" "Num 50" "[]"] n
    by simp
qed

text \<open>
  The claim as it was stated fails: the input \<^verbatim>\<open>50.5\<close> coerces to a number that is
  not an integer, and the schema accepts it with no issue.
\<close>

theorem knowledge_schema_accepts_non_integer:
  "knowledge_schema [Key ''techs'', Index 0, Key ''knowledge''] (JSString ''50.5'')
     = Inr (OK (Num (101 / 2)), [])
   \<and> \<not> isInteger (Num (101 / 2))"
proof -
  have n: "StringToNumber ''50.5'' = Num (101 / 2)" by code_simp
  have i: "\<not> isInteger (Num (101 / 2))" by code_simp
  show ?thesis using i by (simp add: knowledge_schema_eq n)
qed

text \<open>
  Claim C10. A knowledge input that is the empty string (or holds white space only)
  coerces to 0, and the schema reports it as below the minimum, with the library's
  message for the bound 1; and for no raw value does the schema report the message
  \<^verbatim>\<open>Required\<close>, which the library keeps for an input that is \<^verbatim>\<open>undefined\<close> when its
  type is tested: the coercion runs first, so that test never sees \<^verbatim>\<open>undefined\<close>.
\<close>

theorem knowledge_blank_is_range_error:
  "(trim s = [] \<longrightarrow>
      ToNumber (JSString s) = Num 0
      \<and> knowledge_schema p (JSString s)
          = Inr (DIRTY (Num 0),
                 [\<lparr>code = too_small, path = p,
                   message = ''Number must be greater than or equal to 1''\<rparr>]))
   \<and> (\<exists>r iss. knowledge_schema p v = Inr (r, iss)
         \<and> (\<forall>i \<in> set iss. message i \<noteq> ''Required''))"
  by (auto simp add: knowledge_schema_eq StringToNumber_def split: js_number.splits)

theorem knowledge_blank_is_range_error_witness:
  "trim [] = []
   \<and> ToNumber (JSString []) = Num 0
   \<and> knowledge_schema [Key ''knowledge''] (JSString [])
       = Inr (DIRTY (Num 0),
              [\<lparr>code = too_small, path = [Key ''knowledge''],
                message = ''Number must be greater than or equal to 1''\<rparr>])
   \<and> knowledge_schema [Key ''knowledge''] JSUndefined
       = Inr (INVALID,
              [\<lparr>code = invalid_type, path = [Key ''knowledge''],
                message = ''Expected number, received nan''\<rparr>])
   \<and> ''Expected number, received nan'' \<noteq> ''Required''"
  using knowledge_blank_is_range_error [of "[]" "[Key ''knowledge'']" JSUndefined]
  by (simp add: trim_def knowledge_schema_eq)

subsection \<open>techs\<close>

lemma title_schema_eq:
  "title_schema h p s =
     Inr (if s = []
          then (DIRTY s, [\<lparr>code = too_small, path = p, message = msg_title_required\<rparr>])
          else (OK s, []))"
  by (cases s) (simp_all add: title_schema_def z_string_def addIssue_def)

lemma tech_schema_result:
  "\<exists>r iss. tech_schema h p t = Inr (r, iss) \<and> tech_result r t
     \<and> (\<forall>i \<in> set iss. code i \<noteq> custom)"
  by (cases "ToNumber (knowledge t)")
     (auto simp add: tech_schema_def title_schema_eq knowledge_schema_eq tech_result_def
        coerced_def)

lemma array_elements_tech:
  "\<exists>rs iss. array_elements (tech_schema h) p k ts = Inr (rs, iss)
     \<and> list_all2 tech_result rs ts \<and> (\<forall>i \<in> set iss. code i \<noteq> custom)"
proof (induction ts arbitrary: k)
  case Nil
  show ?case by simp
next
  case (Cons t ts)
  obtain r iss where t: "tech_schema h (p @ [Index k]) t = Inr (r, iss)" "tech_result r t"
    "\<forall>i \<in> set iss. code i \<noteq> custom"
    using tech_schema_result by blast
  obtain rs iss' where ts: "array_elements (tech_schema h) p (Suc k) ts = Inr (rs, iss')"
    "list_all2 tech_result rs ts" "\<forall>i \<in> set iss'. code i \<noteq> custom"
    using Cons.IH by blast
  show ?case using t ts by auto
qed

lemma mergeArray_tech:
  "list_all2 tech_result rs ts \<Longrightarrow>
     (if list_ex (\<lambda>t. ToNumber (knowledge t) = NaN) ts then mergeArray d rs = INVALID
      else mergeArray d rs = DIRTY (map coerced ts)
           \<or> (\<not> d \<and> mergeArray d rs = OK (map coerced ts)))"
proof (induction rs ts arbitrary: d rule: list_all2_induct)
  case Nil
  show ?case by simp
next
  case (Cons r rs t ts)
  show ?case
    using Cons.hyps(1) Cons.IH [of True] Cons.IH [of d]
    by (cases "ToNumber (knowledge t) = NaN") (auto simp add: tech_result_def split: if_splits)
qed

lemma z_array_min_tech:
  "\<exists>r iss. z_array_min (tech_schema h) n msg p ts = Inr (r, iss)
     \<and> (\<forall>i \<in> set iss. code i \<noteq> custom)
     \<and> (if list_ex (\<lambda>t. ToNumber (knowledge t) = NaN) ts then r = INVALID
        else r = DIRTY (map coerced ts) \<or> (n \<le> length ts \<and> r = OK (map coerced ts)))
     \<and> (if length ts < n
        then \<exists>rest. iss = \<lparr>code = too_small, path = p, message = msg\<rparr> # rest
        else True)"
proof -
  obtain rs iss where e: "array_elements (tech_schema h) p 0 ts = Inr (rs, iss)"
    "list_all2 tech_result rs ts" "\<forall>i \<in> set iss. code i \<noteq> custom"
    using array_elements_tech by blast
  show ?thesis
    using e mergeArray_tech [OF e(2), of "length ts < n"]
    by (auto simp add: z_array_min_def addIssue_def split: if_splits)
qed

lemma techs_schema_eq:
  "z_array_min (tech_schema h) 2 msg_techs_min p ts = Inr (r0, iss0) \<Longrightarrow>
   techs_schema h p ts =
     Inr (case r0 of
            INVALID \<Rightarrow> (INVALID, iss0)
          | DIRTY vs \<Rightarrow>
              (DIRTY vs,
               if list_ex (\<lambda>tech. js_gt (knowledge tech) (Num 50)) vs then iss0
               else iss0 @ [\<lparr>code = custom, path = p, message = msg_techs_learning\<rparr>])
          | OK vs \<Rightarrow>
              if list_ex (\<lambda>tech. js_gt (knowledge tech) (Num 50)) vs then (OK vs, iss0)
              else (DIRTY vs,
                    iss0 @ [\<lparr>code = custom, path = p, message = msg_techs_learning\<rparr>]))"
  by (simp add: techs_schema_def refine_def techs_some_above_50_def addIssue_def
      split: parse_return.splits)

lemma techs_schema_total: "\<exists>r iss. techs_schema h p ts = Inr (r, iss)"
proof -
  obtain r0 iss0 where "z_array_min (tech_schema h) 2 msg_techs_min p ts = Inr (r0, iss0)"
    using z_array_min_tech [of h 2 msg_techs_min p ts] by blast
  from techs_schema_eq [OF this] show ?thesis by (cases r0) auto
qed

text \<open>
  Claim C6. Take two entries whose coerced knowledge is at most 50 (a number, and
  not above 50). The schema of the array returns normally, is not valid, and reports
  the issue with the message of the source (\<^verbatim>\<open>Voce esta aprendendo\<close>, with its accents)
  at the path of the array. With the knowledge of either entry changed to 51 that
  issue is not reported.
\<close>

theorem techs_schema_learning:
  assumes a: "js_le (ToNumber (knowledge a)) (Num 50)"
      and b: "js_le (ToNumber (knowledge b)) (Num 50)"
  shows "(\<exists>r iss. techs_schema h p [a, b] = Inr (r, iss)
            \<and> \<lparr>code = custom, path = p, message = msg_techs_learning\<rparr> \<in> set iss
            \<and> (\<forall>vs. r \<noteq> OK vs))
       \<and> (\<exists>r iss. techs_schema h p [a\<lparr>knowledge := JSNumber (Num 51)\<rparr>, b] = Inr (r, iss)
            \<and> \<lparr>code = custom, path = p, message = msg_techs_learning\<rparr> \<notin> set iss)
       \<and> (\<exists>r iss. techs_schema h p [a, b\<lparr>knowledge := JSNumber (Num 51)\<rparr>] = Inr (r, iss)
            \<and> \<lparr>code = custom, path = p, message = msg_techs_learning\<rparr> \<notin> set iss)"
proof -
  have na: "ToNumber (knowledge a) \<noteq> NaN" "\<not> js_gt (ToNumber (knowledge a)) (Num 50)"
    using a by (simp_all add: js_le_def js_gt_def)
  have nb: "ToNumber (knowledge b) \<noteq> NaN" "\<not> js_gt (ToNumber (knowledge b)) (Num 50)"
    using b by (simp_all add: js_le_def js_gt_def)
  have both: "\<exists>r iss. techs_schema h p [a, b] = Inr (r, iss)
            \<and> \<lparr>code = custom, path = p, message = msg_techs_learning\<rparr> \<in> set iss
            \<and> (\<forall>vs. r \<noteq> OK vs)"
  proof -
    obtain r0 iss0 where
      z: "z_array_min (tech_schema h) 2 msg_techs_min p [a, b] = Inr (r0, iss0)"
        "r0 = DIRTY (map coerced [a, b]) \<or> r0 = OK (map coerced [a, b])"
      using z_array_min_tech [of h 2 msg_techs_min p "[a, b]"] na nb by auto
    show ?thesis
      using z(2) techs_schema_eq [OF z(1)] na nb by (auto simp add: coerced_def)
  qed
  have one: "\<exists>r iss. techs_schema h p [x, y] = Inr (r, iss)
            \<and> \<lparr>code = custom, path = p, message = msg_techs_learning\<rparr> \<notin> set iss"
    if xy: "ToNumber (knowledge x) = Num 51 \<or> ToNumber (knowledge y) = Num 51" for x y
  proof -
    obtain r0 iss0 where
      z: "z_array_min (tech_schema h) 2 msg_techs_min p [x, y] = Inr (r0, iss0)"
        "\<forall>i \<in> set iss0. code i \<noteq> custom"
        "r0 = INVALID \<or> r0 = DIRTY (map coerced [x, y]) \<or> r0 = OK (map coerced [x, y])"
      using z_array_min_tech [of h 2 msg_techs_min p "[x, y]"] by (auto split: if_splits)
    have above: "list_ex (\<lambda>tech. js_gt (knowledge tech) (Num 50)) (map coerced [x, y])"
      using xy by (auto simp add: coerced_def js_gt_def)
    have "\<lparr>code = custom, path = p, message = msg_techs_learning\<rparr> \<notin> set iss0"
      using z(2) by auto
    then show ?thesis
      using z(3) techs_schema_eq [OF z(1)] above by auto
  qed
  show ?thesis
    using both one [of "a\<lparr>knowledge := JSNumber (Num 51)\<rparr>" b]
      one [of a "b\<lparr>knowledge := JSNumber (Num 51)\<rparr>"]
    by simp
qed

theorem techs_schema_learning_witness:
  "js_le (ToNumber (JSString ''50'')) (Num 50) \<and> js_le (ToNumber (JSString ''10'')) (Num 50)
   \<and> techs_schema example_host [Key ''techs'']
        [\<lparr>title = ''React'', knowledge = JSString ''50''\<rparr>,
         \<lparr>title = ''Node'', knowledge = JSString ''10''\<rparr>]
       = Inr (DIRTY [\<lparr>title = ''React'', knowledge = Num 50\<rparr>,
                     \<lparr>title = ''Node'', knowledge = Num 10\<rparr>],
              [\<lparr>code = custom, path = [Key ''techs''], message = msg_techs_learning\<rparr>])
   \<and> techs_schema example_host [Key ''techs'']
        [\<lparr>title = ''React'', knowledge = JSNumber (Num 51)\<rparr>,
         \<lparr>title = ''Node'', knowledge = JSString ''10''\<rparr>]
       = Inr (OK [\<lparr>title = ''React'', knowledge = Num 51\<rparr>,
                  \<lparr>title = ''Node'', knowledge = Num 10\<rparr>], [])"
proof -
  have n: "StringToNumber ''50'' = Num 50" "StringToNumber ''10'' = Num 10"
    by code_simp+
  have le: "js_le (ToNumber (JSString ''50'')) (Num 50)"
    "js_le (ToNumber (JSString ''10'')) (Num 50)"
    by (simp_all add: n js_le_def)
  show ?thesis
    using techs_schema_learning
        [of "\<lparr>title = ''React'', knowledge = JSString ''50''\<rparr>"
            "\<lparr>title = ''Node'', knowledge = JSString ''10''\<rparr>"
            example_host "[Key ''techs'']"] le
    by (simp add: techs_schema_def refine_def z_array_min_def tech_schema_def title_schema_eq
        knowledge_schema_eq n techs_some_above_50_def addIssue_def js_gt_def js_le_def)
qed

text \<open>
  Claim C7. An array of fewer than two entries is not valid, whatever its entries
  hold, and the first issue the schema reports for it is the one with the message
  \<^verbatim>\<open>Insira pelo menos 2 tecnologias\<close> at the path of the array. Removing an entry has
  no lower bound: from a list of at most two entries it gives a list one shorter,
  which the schema then rejects in the same way. The list operations return a list
  and no issue; only the schema reports the shortfall.
\<close>

theorem techs_schema_min_count:
  "(length ts < 2 \<longrightarrow>
      (\<exists>r rest. techs_schema h p ts
           = Inr (r, \<lparr>code = too_small, path = p,
                      message = ''Insira pelo menos 2 tecnologias''\<rparr> # rest)
         \<and> (\<forall>vs. r \<noteq> OK vs)))
   \<and> (i < length ts \<and> length ts \<le> 2 \<longrightarrow>
      length (remove ts i) = length ts - 1 \<and>
      (\<exists>r rest. techs_schema h p (remove ts i)
           = Inr (r, \<lparr>code = too_small, path = p,
                      message = ''Insira pelo menos 2 tecnologias''\<rparr> # rest)
         \<and> (\<forall>vs. r \<noteq> OK vs)))"
proof -
  have short: "\<exists>r rest. techs_schema h p us
           = Inr (r, \<lparr>code = too_small, path = p,
                      message = ''Insira pelo menos 2 tecnologias''\<rparr> # rest)
         \<and> (\<forall>vs. r \<noteq> OK vs)" if us: "length us < 2" for us
  proof -
    obtain r0 iss0 where
      z: "z_array_min (tech_schema h) 2 msg_techs_min p us = Inr (r0, iss0)"
        "r0 = INVALID \<or> r0 = DIRTY (map coerced us)"
        "\<exists>rest. iss0 = \<lparr>code = too_small, path = p, message = msg_techs_min\<rparr> # rest"
      using z_array_min_tech [of h 2 msg_techs_min p us] us by (auto split: if_splits)
    show ?thesis
      using z techs_schema_eq [OF z(1)] by (auto simp add: msg_techs_min_def)
  qed
  have len: "length (remove ts i) = length ts - 1" if "i < length ts"
    using that by (simp add: remove_def)
  show ?thesis using short [of ts] short [of "remove ts i"] len by auto
qed

theorem techs_schema_min_count_witness:
  "length [\<lparr>title = ''React'', knowledge = JSString ''90''\<rparr>] < 2
   \<and> techs_schema example_host [Key ''techs'']
        [\<lparr>title = ''React'', knowledge = JSString ''90''\<rparr>]
       = Inr (DIRTY [\<lparr>title = ''React'', knowledge = Num 90\<rparr>],
              [\<lparr>code = too_small, path = [Key ''techs''],
                message = ''Insira pelo menos 2 tecnologias''\<rparr>])
   \<and> 0 < length [\<lparr>title = ''Node'', knowledge = JSString ''40''\<rparr>,
                   \<lparr>title = ''React'', knowledge = JSString ''90''\<rparr>]
   \<and> length [\<lparr>title = ''Node'', knowledge = JSString ''40''\<rparr>,
               \<lparr>title = ''React'', knowledge = JSString ''90''\<rparr>] \<le> 2
   \<and> remove [\<lparr>title = ''Node'', knowledge = JSString ''40''\<rparr>,
               \<lparr>title = ''React'', knowledge = JSString ''90''\<rparr>] 0
       = [\<lparr>title = ''React'', knowledge = JSString ''90''\<rparr>]
   \<and> techs_schema example_host [Key ''techs'']
        (remove [\<lparr>title = ''Node'', knowledge = JSString ''40''\<rparr>,
                 \<lparr>title = ''React'', knowledge = JSString ''90''\<rparr>] 0)
       = Inr (DIRTY [\<lparr>title = ''React'', knowledge = Num 90\<rparr>],
              [\<lparr>code = too_small, path = [Key ''techs''],
                message = ''Insira pelo menos 2 tecnologias''\<rparr>])"
proof -
  have n: "StringToNumber ''90'' = Num 90" by code_simp
  have e: "techs_schema example_host [Key ''techs'']
        [\<lparr>title = ''React'', knowledge = JSString ''90''\<rparr>]
       = Inr (DIRTY [\<lparr>title = ''React'', knowledge = Num 90\<rparr>],
              [\<lparr>code = too_small, path = [Key ''techs''],
                message = ''Insira pelo menos 2 tecnologias''\<rparr>])"
    by (simp add: techs_schema_def refine_def z_array_min_def tech_schema_def title_schema_eq
        knowledge_schema_eq n techs_some_above_50_def addIssue_def js_gt_def msg_techs_min_def)
  show ?thesis
    using techs_schema_min_count
        [of "[\<lparr>title = ''React'', knowledge = JSString ''90''\<rparr>]" example_host
            "[Key ''techs'']" 0]
      techs_schema_min_count
        [of "[\<lparr>title = ''Node'', knowledge = JSString ''40''\<rparr>,
              \<lparr>title = ''React'', knowledge = JSString ''90''\<rparr>]" example_host
            "[Key ''techs'']" 0] e
    by (simp add: remove_def)
qed

text \<open>The entry \<^verbatim>\<open>addNewTech\<close> appends is the last one and holds the defaults.\<close>

lemma addNewTech_last:
  "addNewTech entries = entries @ [\<lparr>title = [], knowledge = JSNumber (Num 0)\<rparr>]"
  by (simp add: addNewTech_def append_field_def)

section \<open>Properties of the whole form\<close>

text \<open>
  The schema of the form throws exactly in two cases: the list of files is empty, or
  the name is not empty and its trimmed text has an empty word. In every other
  case each of the five keys returns a result and the issues of all of them are
  kept.
\<close>

lemma createUserFormSchema_throws_iff:
  "createUserFormSchema h p x = Inl err \<longleftrightarrow>
     avatar x = [] \<or> (name x \<noteq> [] \<and> [] \<in> set (split CHR '' '' (trim (name x))))"
proof -
  obtain re ie where e: "email_schema h (p @ [Key ''email'']) (email x) = Inr (re, ie)"
    using email_schema_total by blast
  obtain rp ip where
    pw: "password_schema h (p @ [Key ''password'']) (password x) = Inr (rp, ip)"
    using password_schema_total by blast
  obtain rt it where t: "techs_schema h (p @ [Key ''techs'']) (techs x) = Inr (rt, it)"
    using techs_schema_total by blast
  show ?thesis
  proof (cases "avatar x")
    case Nil
    then show ?thesis
      by (cases err) (simp add: createUserFormSchema_def avatar_schema_empty)
  next
    case (Cons f fs)
    then show ?thesis
      by (cases err)
         (simp add: createUserFormSchema_def avatar_schema_nonempty name_schema_cases e pw t)
  qed
qed

text \<open>The revision without the avatar throws in the second case alone.\<close>

lemma createUserFormSchema_App_throws_iff:
  "createUserFormSchema_App h p x = Inl err \<longleftrightarrow>
     name x \<noteq> [] \<and> [] \<in> set (split CHR '' '' (trim (name x)))"
proof -
  obtain re ie where e: "email_schema h (p @ [Key ''email'']) (email x) = Inr (re, ie)"
    using email_schema_total by blast
  obtain rp ip where
    pw: "password_schema h (p @ [Key ''password'']) (password x) = Inr (rp, ip)"
    using password_schema_total by blast
  obtain rt it where t: "techs_schema h (p @ [Key ''techs'']) (techs x) = Inr (rt, it)"
    using techs_schema_total by blast
  show ?thesis
    by (cases err) (simp add: createUserFormSchema_App_def name_schema_cases e pw t)
qed

text \<open>
  Claim C1. The claim: the validator never throws for an issue the user can correct,
  a missing avatar and a name with extra internal white space among them. The source
  throws a \<^verbatim>\<open>TypeError\<close> in exactly those two cases.
\<close>

theorem validator_throws_iff:
  "safeParse (createUserFormSchema h) x = Inl TypeError \<longleftrightarrow>
     avatar x = [] \<or> (name x \<noteq> [] \<and> [] \<in> set (split CHR '' '' (trim (name x))))"
proof -
  have "safeParse (createUserFormSchema h) x = Inl TypeError
          \<longleftrightarrow> createUserFormSchema h [] x = Inl TypeError"
    by (auto simp add: safeParse_def split: sum.splits prod.splits parse_return.splits)
  then show ?thesis by (simp add: createUserFormSchema_throws_iff)
qed

theorem validator_throws_iff_witness:
  "safeParse (createUserFormSchema example_host)
     \<lparr>avatar = [], name = ''Ana'', email = ''ana@hotmail.com'', password = ''123456'',
      techs = [\<lparr>title = ''React'', knowledge = JSString ''90''\<rparr>,
               \<lparr>title = ''Node'', knowledge = JSString ''40''\<rparr>]\<rparr> = Inl TypeError
   \<and> safeParse (createUserFormSchema example_host)
     \<lparr>avatar = [\<lparr>file_name = ''a.png'', file_size = 1024, file_type = ''image/png''\<rparr>],
      name = ''Ana  Maria'', email = ''ana@hotmail.com'', password = ''123456'',
      techs = [\<lparr>title = ''React'', knowledge = JSString ''90''\<rparr>,
               \<lparr>title = ''Node'', knowledge = JSString ''40''\<rparr>]\<rparr> = Inl TypeError"
proof -
  have w: "[] \<in> set (split CHR '' '' (trim ''Ana  Maria''))"
    by (simp add: trim_def isWhiteSpace_def)
  show ?thesis
    using w
      validator_throws_iff [of example_host
        "\<lparr>avatar = [], name = ''Ana'', email = ''ana@hotmail.com'', password = ''123456'',
          techs = [\<lparr>title = ''React'', knowledge = JSString ''90''\<rparr>,
                   \<lparr>title = ''Node'', knowledge = JSString ''40''\<rparr>]\<rparr>"]
      validator_throws_iff [of example_host
        "\<lparr>avatar = [\<lparr>file_name = ''a.png'', file_size = 1024, file_type = ''image/png''\<rparr>],
          name = ''Ana  Maria'', email = ''ana@hotmail.com'', password = ''123456'',
          techs = [\<lparr>title = ''React'', knowledge = JSString ''90''\<rparr>,
                   \<lparr>title = ''Node'', knowledge = JSString ''40''\<rparr>]\<rparr>"]
    by simp
qed

text \<open>
  Claim C8. The claim: a violation in one field, the avatar or the name for one, does
  not keep the other fields from reporting their messages. In the source a missing
  avatar, and a name with two spaces in a row, end the parse with a \<^verbatim>\<open>TypeError\<close>
  whatever the other fields hold: no field reports anything.
\<close>

theorem validator_throw_hides_other_fields:
  "safeParse (createUserFormSchema h) (x\<lparr>avatar := []\<rparr>) = Inl TypeError
   \<and> safeParse (createUserFormSchema h) (x\<lparr>avatar := f # fs, name := ''Ana  Maria''\<rparr>)
       = Inl TypeError"
proof -
  have w: "[] \<in> set (split CHR '' '' (trim ''Ana  Maria''))"
    by (simp add: trim_def isWhiteSpace_def)
  have "createUserFormSchema h [] (x\<lparr>avatar := []\<rparr>) = Inl TypeError"
    by (simp add: createUserFormSchema_throws_iff)
  moreover
  have "createUserFormSchema h [] (x\<lparr>avatar := f # fs, name := ''Ana  Maria''\<rparr>)
          = Inl TypeError"
    using w by (simp add: createUserFormSchema_throws_iff)
  ultimately show ?thesis by (simp add: safeParse_def)
qed

text \<open>
  When nothing throws, every key is parsed and reports: an input with a violation
  under each of the five keys gets the issues of all of them, in the order of the
  source.
\<close>

lemma validator_reports_every_field:
  "safeParse (createUserFormSchema example_host)
     \<lparr>avatar = [\<lparr>file_name = ''a.gif'', file_size = 6 * 1024 * 1024,
                  file_type = ''image/gif''\<rparr>],
      name = [], email = ''ana@gmail.com'', password = ''123'',
      techs = [\<lparr>title = [], knowledge = JSString []\<rparr>]\<rparr>
   = Inr (Inl
       [\<lparr>code = custom, path = [Key ''avatar''], message = msg_avatar_size\<rparr>,
        \<lparr>code = custom, path = [Key ''avatar''], message = msg_avatar_type\<rparr>,
        \<lparr>code = too_small, path = [Key ''name''], message = msg_name_required\<rparr>,
        \<lparr>code = custom, path = [Key ''email''], message = msg_email_hotmail\<rparr>,
        \<lparr>code = too_small, path = [Key ''password''], message = msg_password_min\<rparr>,
        \<lparr>code = too_small, path = [Key ''techs''], message = msg_techs_min\<rparr>,
        \<lparr>code = too_small, path = [Key ''techs'', Index 0, Key ''title''],
          message = msg_title_required\<rparr>,
        \<lparr>code = too_small, path = [Key ''techs'', Index 0, Key ''knowledge''],
          message = ''Number must be greater than or equal to 1''\<rparr>,
        \<lparr>code = custom, path = [Key ''techs''], message = msg_techs_learning\<rparr>])"
proof -
  have t: "plain_email ''ana@gmail.com''" by code_simp
  have l: "toLowerCase ''ana@gmail.com'' = ''ana@gmail.com''" by code_simp
  have n: "StringToNumber [] = Num 0" by (simp add: StringToNumber_def trim_def)
  have e: "email_schema example_host [Key ''email''] ''ana@gmail.com''
      = Inr (DIRTY ''ana@gmail.com'',
             [\<lparr>code = custom, path = [Key ''email''], message = msg_email_hotmail\<rparr>])"
    using t
    by (simp add: email_schema_def refine_def z_string_def email_hotmail_def addIssue_def
        example_host_def l endsWith_def)
  show ?thesis
    by (simp add: safeParse_def createUserFormSchema_def avatar_schema_nonempty
        name_schema_cases e password_schema_def z_string_def techs_schema_def refine_def
        z_array_min_def tech_schema_def title_schema_eq knowledge_schema_eq n
        techs_some_above_50_def addIssue_def js_gt_def merge_form_def aborted_def
        MAX_FILE_SIZE_def ACCEPTED_IMAGE_TYPES_def)
qed

text \<open>What a successful parse hands on: the first file, the name and the email normalised.\<close>

lemma merge_form_OK:
  "merge_form ra rn re rp rt = OK d \<Longrightarrow>
     ra = OK (avatar d) \<and> rn = OK (name d) \<and> re = OK (email d) \<and> rp = OK (password d)
     \<and> rt = OK (techs d)"
  by (cases ra; cases rn; cases re; cases rp; cases rt)
     (auto simp add: merge_form_def split: if_splits)

lemma createUserFormSchema_success:
  assumes "safeParse (createUserFormSchema h) x = Inr (Inr d)"
  shows "email d = toLowerCase (email x) \<and> name d = normalize_name_spec h (name x)
         \<and> avatar d = Some (hd (avatar x))"
proof -
  obtain iss where r: "createUserFormSchema h [] x = Inr (OK d, iss)"
    using assms by (auto simp add: safeParse_def split: sum.splits prod.splits parse_return.splits)
  then obtain f fs where a: "avatar x = f # fs"
    using createUserFormSchema_throws_iff [of h "[]" x TypeError]
    by (cases "avatar x") auto
  obtain re ie where e: "email_schema h ([] @ [Key ''email'']) (email x) = Inr (re, ie)"
    using email_schema_total by blast
  obtain rp ip where
    pw: "password_schema h ([] @ [Key ''password'']) (password x) = Inr (rp, ip)"
    using password_schema_total by blast
  obtain rt it where t: "techs_schema h ([] @ [Key ''techs'']) (techs x) = Inr (rt, it)"
    using techs_schema_total by blast
  have m: "\<exists>ra rn ia inn. avatar_schema ([] @ [Key ''avatar'']) (avatar x) = Inr (ra, ia)
      \<and> name_schema h ([] @ [Key ''name'']) (name x) = Inr (rn, inn)
      \<and> merge_form ra rn re rp rt = OK d"
    using r e pw t
    by (auto simp add: createUserFormSchema_def split: sum.splits prod.splits)
  then obtain ra rn ia inn where
    ra: "avatar_schema ([] @ [Key ''avatar'']) (avatar x) = Inr (ra, ia)" and
    rn: "name_schema h ([] @ [Key ''name'']) (name x) = Inr (rn, inn)" and
    mf: "merge_form ra rn re rp rt = OK d"
    by blast
  have ok: "ra = OK (avatar d)" "rn = OK (name d)" "re = OK (email d)"
    using merge_form_OK [OF mf] by simp_all
  have "email d = toLowerCase (email x)"
    using e ok(3) email_schema_OK by blast
  moreover have "name d = normalize_name_spec h (name x)"
    using rn ok(2) by (auto simp add: name_schema_cases split: if_splits)
  moreover have "avatar d = Some (hd (avatar x))"
    using ra ok(1) a by (auto simp add: avatar_schema_nonempty split: if_splits)
  ultimately show ?thesis by simp
qed

end
